theory Spec2Isabelle
  imports Main "HOL-Library.Sublist" "HOL-Library.Word"
begin

section \<open>Strings, bytes and exceptions\<close>

text \<open>
  A Python \<^verbatim>\<open>str\<close> is a sequence of Unicode code points. Code points are modelled as
  natural numbers (valid ones are below \<open>0x110000\<close>), so that \<^verbatim>\<open>chr\<close>, the Unicode
  white space that \<^verbatim>\<open>str.strip\<close> removes, the Unicode line boundaries of
  \<^verbatim>\<open>str.splitlines\<close> and the replacement character \<open>U+FFFD\<close> are all
  representable. \<open>ascii\<close> turns an ASCII literal into such a string. Bytes are 8-bit words.
\<close>

type_synonym str = "nat list"

type_synonym bytes = "8 word list"

definition ascii :: "string \<Rightarrow> str" where
  "ascii s = map of_char s"

text \<open>An exception is its class and its message (\<^verbatim>\<open>str(e)\<close>).\<close>

datatype exn_class =
  ValueError | UnicodeEncodeError | FileNotFoundError | IsADirectoryError
  | NotADirectoryError | FileExistsError | EnvironmentError | RequestException | HTTPError | ImageError
  | OSError

datatype exn = Exn (exn_class: exn_class) (message: str)

text \<open>\<^verbatim>\<open>sep.join(xs)\<close> for the separator \<^verbatim>\<open>"\n"\<close>, and \<^verbatim>\<open>s.split("\n")\<close>.\<close>

fun join_nl :: "str list \<Rightarrow> str" where
  "join_nl [] = []"
| "join_nl [x] = x"
| "join_nl (x # y # ys) = x @ 10 # join_nl (y # ys)"

fun split_nl :: "str \<Rightarrow> str list" where
  "split_nl [] = [[]]"
| "split_nl (c # cs) =
     (if c = 10 then [] # split_nl cs
      else (case split_nl cs of l # ls \<Rightarrow> (c # l) # ls | [] \<Rightarrow> [[c]]))"

text \<open>
  \<^verbatim>\<open>str.isspace\<close> on one code point: the characters \<^verbatim>\<open>str.strip()\<close> removes.
\<close>

definition is_space :: "nat \<Rightarrow> bool" where
  "is_space c =
     ((9 \<le> c \<and> c \<le> 13) \<or> (28 \<le> c \<and> c \<le> 32) \<or> c = 133 \<or> c = 160 \<or> c = 5760
      \<or> (8192 \<le> c \<and> c \<le> 8202) \<or> c = 8232 \<or> c = 8233 \<or> c = 8239 \<or> c = 8287
      \<or> c = 12288)"

definition strip :: "str \<Rightarrow> str" where
  "strip s = rev (dropWhile is_space (rev (dropWhile is_space s)))"

definition startswith :: "str \<Rightarrow> str \<Rightarrow> bool" where
  "startswith s p = prefix p s"







text \<open>
  \<^verbatim>\<open>chr(k)\<close>: the one-character string of code point \<open>k\<close>; a \<^verbatim>\<open>ValueError\<close> outside
  \<open>0 .. 0x10FFFF\<close>.
\<close>

definition chr :: "int \<Rightarrow> exn + str" where
  "chr k =
     (if 0 \<le> k \<and> k < 1114112 then Inr [nat k]
      else Inl (Exn ValueError (ascii ''chr() arg not in range(0x110000)'')))"

section \<open>Option detection\<close>

text \<open>
  \<^verbatim>\<open>re.findall(r"\([A-Ea-e]\)", base_question)\<close>: the scan goes left to right, takes a
  match where one starts and goes on behind it, and moves one character on otherwise.
\<close>

definition option_letter :: "nat \<Rightarrow> bool" where
  "option_letter c = ((65 \<le> c \<and> c \<le> 69) \<or> (97 \<le> c \<and> c \<le> 101))"

fun findall_options :: "str \<Rightarrow> str list" where
  "findall_options (a # b # c # rest) =
     (if a = 40 \<and> option_letter b \<and> c = 41
      then [a, b, c] # findall_options rest
      else findall_options (b # c # rest))"
| "findall_options _ = []"

text \<open>\<^verbatim>\<open>len(set(matches))\<close>: the number of distinct matched strings.\<close>

definition detect_options :: "str \<Rightarrow> int" where
  "detect_options base_question = int (card (set (findall_options base_question)))"

section \<open>The question format\<close>

text \<open>
  The curriculum, a constant of the module, and the rendering of one entry in the
  template: \<^verbatim>\<open>f"- {s} > {u} > {t}"\<close>.
\<close>

definition CURRICULUM :: "(str \<times> str \<times> str) list" where
  "CURRICULUM =
     [(ascii ''Quantitative Math'', ascii ''Problem Solving'', ascii ''Numbers and Operations''),
      (ascii ''Quantitative Math'', ascii ''Problem Solving'', ascii ''Algebra''),
      (ascii ''Quantitative Math'', ascii ''Geometry and Measurement'', ascii ''Area & Volume''),
      (ascii ''Quantitative Math'', ascii ''Numbers and Operations'',
         ascii ''Fractions, Decimals, & Percents''),
      (ascii ''Quantitative Math'', ascii ''Data Analysis & Probability'',
         ascii ''Probability (Basic, Compound Events)''),
      (ascii ''Quantitative Math'', ascii ''Reasoning'', ascii ''Word Problems'')]"

definition curriculum_line :: "str \<times> str \<times> str \<Rightarrow> str" where
  "curriculum_line e =
     (case e of (s, u, t) \<Rightarrow> ascii ''- '' @ s @ ascii '' > '' @ u @ ascii '' > '' @ t)"

text \<open>
  \<^verbatim>\<open>textwrap.dedent\<close>. A line that holds only spaces and tabs is emptied
  (\<^verbatim>\<open>^[ \t]+$\<close> is replaced by the empty string); the margin is the longest run of
  spaces and tabs that starts every line that is left non-empty, computed over the lines in
  order as the library's loop does; a non-empty margin is removed from the start of every
  line that has it.
\<close>

definition is_sp_tab :: "nat \<Rightarrow> bool" where
  "is_sp_tab c = (c = 32 \<or> c = 9)"

definition blank_whitespace_only :: "str \<Rightarrow> str" where
  "blank_whitespace_only l = (if list_all is_sp_tab l then [] else l)"

fun common_prefix :: "str \<Rightarrow> str \<Rightarrow> str" where
  "common_prefix (x # xs) (y # ys) = (if x = y then x # common_prefix xs ys else [])"
| "common_prefix _ _ = []"

definition margin_step :: "str \<Rightarrow> str option \<Rightarrow> str option" where
  "margin_step indent margin =
     (case margin of
        None \<Rightarrow> Some indent
      | Some m \<Rightarrow>
          if prefix m indent then Some m
          else if prefix indent m then Some indent
          else Some (common_prefix m indent))"

definition remove_margin :: "str \<Rightarrow> str \<Rightarrow> str" where
  "remove_margin m l = (if prefix m l then drop (length m) l else l)"

definition dedent :: "str \<Rightarrow> str" where
  "dedent text =
     (let lines = map blank_whitespace_only (split_nl text);
          indents = map (takeWhile is_sp_tab) (filter (\<lambda>l. l \<noteq> []) lines);
          margin = fold margin_step indents None
      in case margin of
           None \<Rightarrow> join_nl lines
         | Some m \<Rightarrow> if m = [] then join_nl lines else join_nl (map (remove_margin m) lines))"

text \<open>
  The loop of \<^verbatim>\<open>build_question_format\<close> over \<^verbatim>\<open>range(option_count)\<close>, which
  appends one tag per index: the correct-option tag at the last index, a tag lettered
  \<^verbatim>\<open>chr(65+i)\<close> at every other.
\<close>

fun option_tags_loop :: "int \<Rightarrow> int list \<Rightarrow> str list \<Rightarrow> exn + str list" where
  "option_tags_loop option_count [] option_tags = Inr option_tags"
| "option_tags_loop option_count (i # rest) option_tags =
     (if i = option_count - 1
      then option_tags_loop option_count rest (option_tags @ [ascii ''@@option <Correct Option>''])
      else (case chr (65 + i) of
              Inl e \<Rightarrow> Inl e
            | Inr c \<Rightarrow>
                option_tags_loop option_count rest
                  (option_tags @ [ascii ''@option <Option '' @ c @ ascii ''>''])))"

text \<open>
  The text of the f-string, line by line: the literal starts with a line break, and its
  last line holds the four spaces before the closing quotes. The two replacement fields
  stand behind the four spaces of their lines; what they insert may itself hold line
  breaks.
\<close>

definition template_lines :: "str \<Rightarrow> str \<Rightarrow> str list" where
  "template_lines options_block curriculum_block =
     [[],
      ascii ''    @title <Assessment title, meaningful>'',
      ascii ''    @description <Short assessment description>'',
      [],
      ascii ''    // Use this block for each question when adding Multiple Choice Questions (MCQ)'',
      ascii ''    @question <Question text here>'',
      ascii ''    @instruction <Instruction here>'',
      ascii ''    @difficulty <easy|moderate|hard>'',
      ascii ''    @Order <Question number>'',
      ascii ''    '' @ options_block,
      ascii ''    @explanation <Explanation for correct answer>'',
      ascii ''    @subject <Choose exactly from curriculum list>'',
      ascii ''    @unit <Choose exactly from curriculum list>'',
      ascii ''    @topic <Choose exactly from curriculum list>'',
      ascii ''    @plusmarks 1'',
      [],
      ascii ''    The subject, unit, and topic must come from this curriculum list:'',
      ascii ''    '' @ curriculum_block,
      ascii ''    '']"

definition template :: "str \<Rightarrow> str \<Rightarrow> str" where
  "template options_block curriculum_block = join_nl (template_lines options_block curriculum_block)"

definition build_question_format :: "int \<Rightarrow> exn + str" where
  "build_question_format option_count =
     (case option_tags_loop option_count [0..option_count - 1] [] of
        Inl e \<Rightarrow> Inl e
      | Inr option_tags \<Rightarrow>
          Inr (dedent (template (join_nl option_tags) (join_nl (map curriculum_line CURRICULUM)))))"

section \<open>The prompt\<close>

text \<open>
  The f-string of \<^verbatim>\<open>build_prompt\<close>, line by line; \<open>8212\<close> is the dash of its
  fourth line and \<open>39\<close> the apostrophe. The parameter \<^verbatim>\<open>order_num\<close> does not occur
  in the body.
\<close>

definition prompt_lines :: "str \<Rightarrow> str \<Rightarrow> str list" where
  "prompt_lines base_question question_format =
     [[],
      ascii ''You are an expert educational content creator.'',
      ascii ''Generate ONE new question that is exactly the same type as the Base Question.'',
      ascii ''Do not change the mathematical concept '' @ [8212] @
        ascii '' only change surface details like names, objects, and numbers.'',
      ascii ''Keep LaTeX math notation unchanged.'',
      ascii ''Preserve any image references in ![](url) format.'',
      [],
      ascii ''Base Question:'',
      base_question,
      [],
      ascii ''Follow this exact output format (tags must be on separate lines):'',
      question_format,
      [],
      ascii ''Ensure:'',
      ascii ''- Same math skill tested.'',
      ascii ''- Correct answer logic matches the base question'' @ [39] @ ascii ''s method.'',
      ascii ''- Subject, unit, and topic tags match EXACTLY from the curriculum list.'',
      ascii ''- @subject, @unit, @topic are each on their own line.'',
      []]"

definition build_prompt :: "str \<Rightarrow> int \<Rightarrow> exn + str" where
  "build_prompt base_question order_num =
     (let option_count = detect_options base_question in
      case build_question_format option_count of
        Inl e \<Rightarrow> Inl e
      | Inr question_format \<Rightarrow> Inr (join_nl (prompt_lines base_question question_format)))"

section \<open>The generation gateway\<close>

definition LOCAL_MODEL :: str where
  "LOCAL_MODEL = ascii ''llama3''"

text \<open>
  \<^verbatim>\<open>prompt.encode("utf-8")\<close>: the UTF-8 bytes of each code point; a surrogate
  (\<open>U+D800 .. U+DFFF\<close>) raises \<^verbatim>\<open>UnicodeEncodeError\<close>.
\<close>

definition utf8_char :: "nat \<Rightarrow> bytes option" where
  "utf8_char c =
     (if c < 128 then Some [of_nat c]
      else if c < 2048 then Some [of_nat (192 + c div 64), of_nat (128 + c mod 64)]
      else if 55296 \<le> c \<and> c < 57344 then None
      else if c < 65536 then
        Some [of_nat (224 + c div 4096), of_nat (128 + c div 64 mod 64), of_nat (128 + c mod 64)]
      else if c < 1114112 then
        Some [of_nat (240 + c div 262144), of_nat (128 + c div 4096 mod 64),
              of_nat (128 + c div 64 mod 64), of_nat (128 + c mod 64)]
      else None)"

fun encode_utf8 :: "str \<Rightarrow> exn + bytes" where
  "encode_utf8 [] = Inr []"
| "encode_utf8 (c # cs) =
     (case utf8_char c of
        None \<Rightarrow> Inl (Exn UnicodeEncodeError (ascii ''surrogates not allowed''))
      | Some bs \<Rightarrow> (case encode_utf8 cs of Inl e \<Rightarrow> Inl e | Inr rest \<Rightarrow> Inr (bs @ rest)))"

text \<open>
  \<^verbatim>\<open>bytes.decode("utf-8", errors="replace")\<close>, on the values of the bytes. It never
  raises: a byte that cannot start a character, and a started character broken off by a
  byte that cannot continue it or by the end of the data, each become one \<open>U+FFFD\<close>
  (\<open>65533\<close>), and decoding goes on at the byte that broke the character off.
\<close>

definition is_continuation :: "nat \<Rightarrow> bool" where
  "is_continuation b = (128 \<le> b \<and> b < 192)"

text \<open>
  One step of the decoder at the byte \<open>b\<close> with the bytes \<open>bs\<close> behind it: the code point
  it gives, and how many of the bytes behind \<open>b\<close> it takes with it.
\<close>

definition decode_step :: "nat \<Rightarrow> nat list \<Rightarrow> nat \<times> nat" where
  "decode_step b bs =
     (if b < 128 then (b, 0)
      else if b < 194 then (65533, 0)
      else if b < 224 then
        (case bs of
           [] \<Rightarrow> (65533, 0)
         | b2 # r \<Rightarrow>
             if is_continuation b2 then ((b - 192) * 64 + (b2 - 128), 1) else (65533, 0))
      else if b < 240 then
        (case bs of
           [] \<Rightarrow> (65533, 0)
         | b2 # r \<Rightarrow>
             if \<not> is_continuation b2 \<or> (if b2 < 160 then b = 224 else b = 237)
             then (65533, 0)
             else (case r of
                     [] \<Rightarrow> (65533, 1)
                   | b3 # r' \<Rightarrow>
                       if is_continuation b3
                       then ((b - 224) * 4096 + (b2 - 128) * 64 + (b3 - 128), 2)
                       else (65533, 1)))
      else if b < 245 then
        (case bs of
           [] \<Rightarrow> (65533, 0)
         | b2 # r \<Rightarrow>
             if \<not> is_continuation b2 \<or> (if b2 < 144 then b = 240 else b = 244)
             then (65533, 0)
             else (case r of
                     [] \<Rightarrow> (65533, 1)
                   | b3 # r' \<Rightarrow>
                       if \<not> is_continuation b3 then (65533, 1)
                       else (case r' of
                               [] \<Rightarrow> (65533, 2)
                             | b4 # r'' \<Rightarrow>
                                 if is_continuation b4
                                 then ((b - 240) * 262144 + (b2 - 128) * 4096
                                        + (b3 - 128) * 64 + (b4 - 128), 3)
                                 else (65533, 2))))
      else (65533, 0))"

fun decode_from :: "nat list \<Rightarrow> str" where
  "decode_from [] = []"
| "decode_from (b # bs) =
     (case decode_step b bs of (c, k) \<Rightarrow> c # decode_from (drop k bs))"

definition decode_utf8_replace :: "bytes \<Rightarrow> str" where
  "decode_utf8_replace bs = decode_from (map unat bs)"

text \<open>
  The result of \<^verbatim>\<open>subprocess.run(..., capture_output=True)\<close>, and the process world:
  what running a command line on an input gives. \<^verbatim>\<open>subprocess.run\<close> raises when the
  program cannot be started (\<^verbatim>\<open>FileNotFoundError\<close> when it is not found); without
  \<^verbatim>\<open>check=True\<close> it returns whatever the exit status is.
\<close>

record completed_process =
  returncode :: int
  stdout :: bytes
  stderr :: bytes

type_synonym subprocess = "str list \<Rightarrow> bytes \<Rightarrow> exn + completed_process"

definition call_llm :: "subprocess \<Rightarrow> str \<Rightarrow> bool \<Rightarrow> exn + str" where
  "call_llm subprocess_run prompt use_local_model =
     (if use_local_model then
        (case encode_utf8 prompt of
           Inl e \<Rightarrow> Inl e
         | Inr input \<Rightarrow>
             (case subprocess_run [ascii ''ollama'', ascii ''run'', LOCAL_MODEL] input of
                Inl e \<Rightarrow> Inl e
              | Inr process \<Rightarrow> Inr (strip (decode_utf8_replace (stdout process)))))
      else Inr (ascii ''@title Placeholder'' @ [10] @
                ascii ''@description This is a placeholder question'' @ [10] @ ascii ''...''))"

section \<open>The document\<close>

text \<open>
  The document of \<^verbatim>\<open>python-docx\<close> as the sequence of its blocks. A picture is given
  by its source, the bytes of a stream or the path \<^verbatim>\<open>Path(img_url)\<close> was made from,
  and its width in inches.
\<close>

datatype image_source = Stream bytes | LocalPath str

datatype block = Heading str nat | Paragraph str | Picture image_source nat

type_synonym document = "block list"

text \<open>
  The world the images come from. \<open>requests_get\<close> is \<^verbatim>\<open>requests.get\<close>, which raises
  or returns a response; of a response the model keeps what \<^verbatim>\<open>raise_for_status()\<close>
  raises, if anything, and the content. \<open>path_exists\<close> is \<^verbatim>\<open>Path(p).exists()\<close>, which
  can itself raise (a \<^verbatim>\<open>PermissionError\<close>). \<open>picture_error\<close> is what loading a picture
  from a source raises, if anything.
\<close>

record response =
  status_error :: "exn option"
  content :: bytes

record image_env =
  requests_get :: "str \<Rightarrow> exn + response"
  path_exists :: "str \<Rightarrow> exn + bool"
  picture_error :: "image_source \<Rightarrow> exn option"

text \<open>
  A statement of the function body runs on the document and gives the exception it
  raises, if any, with the document as it is then. \<^verbatim>\<open>doc.add_heading\<close> and
  \<^verbatim>\<open>doc.add_paragraph\<close> append their block, whatever the text is.

  \<^verbatim>\<open>doc.add_picture(source, width=Inches(4))\<close> first appends an empty paragraph and then
  puts the picture in it: when the picture cannot be loaded, the empty paragraph stays.
\<close>

definition add_picture :: "image_env \<Rightarrow> image_source \<Rightarrow> document \<Rightarrow> exn option \<times> document" where
  "add_picture env source doc =
     (case picture_error env source of
        Some e \<Rightarrow> (Some e, doc @ [Paragraph []])
      | None \<Rightarrow> (None, doc @ [Picture source 4]))"











section \<open>The output folder\<close>




section \<open>The vocabulary of the claims\<close>

text \<open>
  The counts the specification speaks of. A marker is \<open>(X)\<close> for a letter \<open>X\<close> of
  \<open>A..E\<close> or \<open>a..e\<close>; it occurs in a text when it is a contiguous part of it.
  \<open>distinct_markers\<close> counts the markers that occur, keeping \<open>(A)\<close> and \<open>(a)\<close>
  apart; \<open>distinct_markers_ci\<close> counts them with the two cases of a letter identified.
\<close>

definition marker :: "nat \<Rightarrow> str" where
  "marker x = [40, x, 41]"

definition option_letters :: "nat list" where
  "option_letters = [65, 66, 67, 68, 69, 97, 98, 99, 100, 101]"

definition distinct_markers :: "str \<Rightarrow> nat" where
  "distinct_markers s = length (filter (\<lambda>x. sublist (marker x) s) option_letters)"

definition distinct_markers_ci :: "str \<Rightarrow> nat" where
  "distinct_markers_ci s =
     length (filter (\<lambda>x. sublist (marker x) s \<or> sublist (marker (x + 32)) s)
       [65, 66, 67, 68, 69])"

text \<open>
  The lines of a text are its parts between line breaks. A lettered option line is a
  line that starts, after white space, with \<open>@option\<close>; a correct-option line one that
  starts with \<open>@@option\<close>. \<open>option_lines\<close> lists the option lines of a text in order,
  stripped. \<open>lettered_tag c\<close> is the lettered line with the label \<open>c\<close>.
\<close>

definition lettered_tag :: "nat \<Rightarrow> str" where
  "lettered_tag c = ascii ''@option <Option '' @ [c] @ ascii ''>''"

definition correct_tag :: str where
  "correct_tag = ascii ''@@option <Correct Option>''"

definition is_lettered_tag :: "str \<Rightarrow> bool" where
  "is_lettered_tag l = startswith (strip l) (ascii ''@option'')"

definition is_correct_tag :: "str \<Rightarrow> bool" where
  "is_correct_tag l = startswith (strip l) (ascii ''@@option'')"

definition is_option_line :: "str \<Rightarrow> bool" where
  "is_option_line l = (is_lettered_tag l \<or> is_correct_tag l)"

definition option_lines :: "str \<Rightarrow> str list" where
  "option_lines t = map strip (filter is_option_line (split_nl t))"

definition is_upper_letter :: "nat \<Rightarrow> bool" where
  "is_upper_letter c = (65 \<le> c \<and> c \<le> 90)"

text \<open>
  Two notions of the proofs: the tags the loop can build, and the lines a replacement
  field behind four spaces contributes.
\<close>

text \<open>The lines the loop can build: the correct-option tag, and a lettered tag.\<close>

definition option_tag :: "str \<Rightarrow> bool" where
  "option_tag t = (t = correct_tag \<or> (\<exists>c. c \<noteq> 10 \<and> t = lettered_tag c))"

definition indent_first :: "str list \<Rightarrow> str list" where
  "indent_first tags = (case tags of [] \<Rightarrow> [ascii ''    ''] | t # ts \<Rightarrow> (ascii ''    '' @ t) # ts)"

text \<open>
  Four process worlds: one where the program \<open>ollama\<close> is not found, one where it runs
  and exits with status 1 and no output, one where it exits with status 0 and its
  output is no UTF-8, and one where it answers \<open>4\<close> between a space and a line break.
\<close>

definition ollama_missing :: subprocess where
  "ollama_missing cmd input = Inl (Exn FileNotFoundError (ascii ''No such file or directory''))"

definition ollama_failing :: subprocess where
  "ollama_failing cmd input = Inr \<lparr>returncode = 1, stdout = [], stderr = [69, 114, 114]\<rparr>"

definition ollama_garbled :: subprocess where
  "ollama_garbled cmd input = Inr \<lparr>returncode = 0, stdout = [255, 254], stderr = []\<rparr>"

definition ollama_answering :: subprocess where
  "ollama_answering cmd input = Inr \<lparr>returncode = 0, stdout = [32, 52, 10], stderr = []\<rparr>"














section \<open>Properties of option detection\<close>

lemma option_letter_iff: "option_letter x \<longleftrightarrow> x \<in> set option_letters"
  unfolding option_letter_def option_letters_def by (simp; arith)

lemma findall_options_set:
  "set (findall_options s) = {m. \<exists>x. option_letter x \<and> m = marker x \<and> sublist m s}"
proof (induction s rule: findall_options.induct)
  case (1 a b c rest)
  show ?case
  proof (cases "a = 40 \<and> option_letter b \<and> c = 41")
    case True
    then have b: "b \<noteq> 40" by (auto simp: option_letter_def)
    have "\<And>x. sublist (marker x) (a # b # c # rest) \<longleftrightarrow> x = b \<or> sublist (marker x) rest"
      using True b by (auto simp: marker_def sublist_Cons_right)
    then show ?thesis using True 1 by (auto simp: marker_def)
  next
    case False
    have "\<And>x. option_letter x \<Longrightarrow>
        sublist (marker x) (a # b # c # rest) \<longleftrightarrow> sublist (marker x) (b # c # rest)"
      using False by (auto simp: marker_def sublist_Cons_right)
    then show ?thesis using False 1 by auto
  qed
qed (auto simp: marker_def sublist_Cons_right)

lemma card_findall_options:
  "card (set (findall_options s)) = distinct_markers s"
proof -
  have inj: "inj marker" by (auto simp: inj_def marker_def)
  have "set (findall_options s) = marker ` {x. x \<in> set option_letters \<and> sublist (marker x) s}"
    unfolding findall_options_set option_letter_iff by auto
  then have "card (set (findall_options s)) =
      card {x. x \<in> set option_letters \<and> sublist (marker x) s}"
    using card_image[OF inj_on_subset[OF inj subset_UNIV]] by simp
  also have "\<dots> = length (filter (\<lambda>x. sublist (marker x) s) option_letters)"
  proof -
    have d: "distinct option_letters" by (simp add: option_letters_def)
    show ?thesis using distinct_length_filter[OF d, of "\<lambda>x. sublist (marker x) s"]
      by (simp add: Int_def conj_commute)
  qed
  finally show ?thesis by (simp add: distinct_markers_def)
qed

lemma distinct_markers_le: "distinct_markers s \<le> 10"
proof -
  have "distinct_markers s \<le> length option_letters"
    unfolding distinct_markers_def by (rule length_filter_le)
  then show ?thesis by (simp add: option_letters_def)
qed

lemma detect_options_range: "0 \<le> detect_options s \<and> detect_options s \<le> 10"
  using distinct_markers_le[of s] by (simp add: detect_options_def card_findall_options)

text \<open>
  Claim C2, as the code has it: for every string, \<open>detect_options\<close> returns the number of
  distinct bracketed letter-option markers \<open>(X)\<close>, \<open>X\<close> in \<open>A..E\<close> or \<open>a..e\<close>, that occur
  in it, where the markers are compared as they are written: \<open>(A)\<close> and \<open>(a)\<close> count as
  two, and the result is at most 10.
\<close>

theorem detect_options_counts_distinct_markers:
  "detect_options s = int (distinct_markers s) \<and> detect_options s \<le> 10"
  using distinct_markers_le[of s] by (simp add: detect_options_def card_findall_options)

text \<open>
  Claim C2 as stated fails: with the two cases of a letter identified, the text
  \<open>(A) (a)\<close> has one distinct marker, and \<open>detect_options\<close> returns 2.
\<close>

theorem detect_options_case_counterexample:
  "detect_options (ascii ''(A) (a)'') = 2 \<and> distinct_markers_ci (ascii ''(A) (a)'') = 1"
  by (simp add: detect_options_def distinct_markers_ci_def ascii_def option_letter_def
      marker_def sublist_Cons_right)

section \<open>Lines of a text\<close>

lemma split_nl_not_Nil: "split_nl s \<noteq> []"
  by (induction s) (auto split: list.splits)

lemma split_nl_append: "split_nl (xs @ 10 # ys) = split_nl xs @ split_nl ys"
proof (induction xs)
  case Nil
  then show ?case by simp
next
  case (Cons c xs)
  obtain l ls where l: "split_nl xs = l # ls"
    using split_nl_not_Nil[of xs] by (cases "split_nl xs") auto
  show ?case using Cons l by simp
qed

lemma split_nl_no_newline: "10 \<notin> set s \<Longrightarrow> split_nl s = [s]"
  by (induction s) auto

lemma split_nl_lines_no_newline: "l \<in> set (split_nl s) \<Longrightarrow> 10 \<notin> set l"
proof (induction s arbitrary: l)
  case Nil
  then show ?case by simp
next
  case (Cons c s)
  obtain k ks where k: "split_nl s = k # ks"
    using split_nl_not_Nil[of s] by (cases "split_nl s") auto
  show ?case using Cons k by (auto split: if_splits)
qed

lemma split_nl_join_nl:
  "ls \<noteq> [] \<Longrightarrow> split_nl (join_nl ls) = concat (map split_nl ls)"
  by (induction ls rule: join_nl.induct) (auto simp: split_nl_append)

lemma concat_split_nl_lines:
  "\<forall>l\<in>set ls. 10 \<notin> set l \<Longrightarrow> concat (map split_nl ls) = ls"
  by (induction ls) (auto simp: split_nl_no_newline)

lemma split_nl_join_nl_lines:
  "ls \<noteq> [] \<Longrightarrow> \<forall>l\<in>set ls. 10 \<notin> set l \<Longrightarrow> split_nl (join_nl ls) = ls"
  by (simp add: split_nl_join_nl concat_split_nl_lines)

lemma split_nl_prefix_join_nl:
  assumes "10 \<notin> set p" and "\<forall>t\<in>set tags. 10 \<notin> set t"
  shows "split_nl (p @ join_nl tags) = (case tags of [] \<Rightarrow> [p] | t # ts \<Rightarrow> (p @ t) # ts)"
proof (cases tags)
  case Nil
  then show ?thesis using assms(1) by (simp add: split_nl_no_newline)
next
  case (Cons t ts)
  have "p @ join_nl (t # ts) = join_nl ((p @ t) # ts)"
    by (cases ts) auto
  moreover have "\<forall>l\<in>set ((p @ t) # ts). 10 \<notin> set l"
    using assms Cons by auto
  ultimately show ?thesis using Cons split_nl_join_nl_lines[of "(p @ t) # ts"] by simp
qed

lemma join_nl_Cons_Cons: "join_nl ((c # l) # ls) = c # join_nl (l # ls)"
  by (cases ls) auto

lemma join_nl_split_nl: "join_nl (split_nl s) = s"
proof (induction s)
  case Nil
  then show ?case by simp
next
  case (Cons c s)
  obtain k ks where k: "split_nl s = k # ks"
    using split_nl_not_Nil[of s] by (cases "split_nl s") auto
  show ?case using Cons k by (auto simp: join_nl_Cons_Cons)
qed

lemma sublist_join_nl: "x \<in> set ls \<Longrightarrow> sublist x (join_nl ls)"
proof (induction ls rule: join_nl.induct)
  case 1
  then show ?case by simp
next
  case (2 y)
  then show ?case by simp
next
  case (3 y z zs)
  show ?case
  proof (cases "x = y")
    case True
    then show ?thesis using sublist_appendI[of y "[]"] by simp
  next
    case False
    then have "sublist x (join_nl (z # zs))" using 3 by simp
    then have "sublist x ((y @ [10]) @ join_nl (z # zs))"
      by (simp only: sublist_append simp_thms)
    then show ?thesis by simp
  qed
qed

section \<open>The margin of the template\<close>

lemma fold_margin_step_empty: "fold margin_step xs (Some []) = Some []"
  by (induction xs) (auto simp: margin_step_def)

lemma margin_step_Nil: "margin_step [] m = Some []"
  by (cases m) (auto simp: margin_step_def)

lemma fold_margin_step_has_empty:
  "[] \<in> set xs \<Longrightarrow> fold margin_step xs m = Some []"
proof (induction xs arbitrary: m)
  case Nil
  then show ?case by simp
next
  case (Cons x xs)
  show ?case
  proof (cases "x = []")
    case True
    then show ?thesis by (simp add: margin_step_Nil fold_margin_step_empty)
  next
    case False
    then show ?thesis using Cons by simp
  qed
qed

lemma blank_whitespace_only_no_newline:
  "10 \<notin> set l \<Longrightarrow> 10 \<notin> set (blank_whitespace_only l)"
  by (simp add: blank_whitespace_only_def)

text \<open>
  A line that starts with a character other than a space or a tab leaves no common
  margin: \<open>dedent\<close> then only empties the lines that hold nothing but spaces and tabs.
\<close>

lemma dedent_lines:
  assumes l: "l \<in> set (split_nl text)" and ne: "l \<noteq> []" and hd: "\<not> is_sp_tab (hd l)"
  shows "split_nl (dedent text) = map blank_whitespace_only (split_nl text)"
proof -
  let ?lines = "map blank_whitespace_only (split_nl text)"
  let ?indents = "map (takeWhile is_sp_tab) (filter (\<lambda>l. l \<noteq> []) ?lines)"
  obtain c cs where c: "l = c # cs" using ne by (cases l) auto
  have b: "blank_whitespace_only l = l"
    using c hd by (simp add: blank_whitespace_only_def)
  from l have "blank_whitespace_only l \<in> set ?lines" by simp
  with b ne have "l \<in> set (filter (\<lambda>l. l \<noteq> []) ?lines)" by simp
  then have "takeWhile is_sp_tab l \<in> set ?indents"
    unfolding set_map by (rule imageI)
  moreover have "takeWhile is_sp_tab l = []" using c hd by simp
  ultimately have "[] \<in> set ?indents" by simp
  then have "fold margin_step ?indents None = Some []"
    by (rule fold_margin_step_has_empty)
  then have "dedent text = join_nl ?lines"
    by (simp add: dedent_def Let_def)
  moreover have "split_nl (join_nl ?lines) = ?lines"
  proof (rule split_nl_join_nl_lines)
    show "?lines \<noteq> []" by (simp add: split_nl_not_Nil)
    show "\<forall>k\<in>set ?lines. 10 \<notin> set k"
      by (auto simp: blank_whitespace_only_no_newline split_nl_lines_no_newline)
  qed
  ultimately show ?thesis by simp
qed

section \<open>The option tags of the template\<close>

lemma option_tags_loop_append:
  "option_tags_loop n (xs @ ys) acc =
     (case option_tags_loop n xs acc of Inl e \<Rightarrow> Inl e | Inr acc' \<Rightarrow> option_tags_loop n ys acc')"
  by (induction xs arbitrary: acc) (auto split: sum.splits)

lemma option_tags_loop_lettered:
  "\<forall>i\<in>set xs. 0 \<le> i \<and> i \<noteq> n - 1 \<and> i < 1114047 \<Longrightarrow>
   option_tags_loop n xs acc = Inr (acc @ map (\<lambda>i. lettered_tag (nat (65 + i))) xs)"
proof (induction xs arbitrary: acc)
  case Nil
  then show ?case by simp
next
  case (Cons i xs)
  have i: "0 \<le> i" "i \<noteq> n - 1" "i < 1114047" using Cons.prems by auto
  then have "chr (65 + i) = Inr [nat (65 + i)]" by (simp add: chr_def)
  then show ?case using i Cons by (simp add: lettered_tag_def)
qed

lemma option_tags_loop_range:
  assumes "1 \<le> n" and "n \<le> 1114048"
  shows "option_tags_loop n [0..n - 1] [] =
     Inr (map (\<lambda>i. lettered_tag (nat (65 + i))) [0..n - 2] @ [correct_tag])"
proof -
  have r: "[0..n - 1] = [0..n - 2] @ [n - 1]"
    using assms(1) upto_rec2[of 0 "n - 1"] by simp
  have "\<forall>i\<in>set [0..n - 2]. 0 \<le> i \<and> i \<noteq> n - 1 \<and> i < 1114047"
    using assms by auto
  then have "option_tags_loop n [0..n - 2] [] =
      Inr ([] @ map (\<lambda>i. lettered_tag (nat (65 + i))) [0..n - 2])"
    by (rule option_tags_loop_lettered)
  then show ?thesis
    unfolding r option_tags_loop_append by (simp add: correct_tag_def)
qed

lemma option_tag_facts:
  assumes "option_tag t"
  shows "10 \<notin> set t" and "strip t = t" and "strip (ascii ''    '' @ t) = t"
    and "blank_whitespace_only t = t"
    and "blank_whitespace_only (ascii ''    '' @ t) = ascii ''    '' @ t"
    and "is_option_line t"
    and "is_option_line (ascii ''    '' @ t)"
proof -
  have s: "strip t = t" and s4: "strip (ascii ''    '' @ t) = t"
    using assms
    by (auto simp: option_tag_def correct_tag_def lettered_tag_def strip_def ascii_def is_space_def)
  show "strip t = t" by (rule s)
  show "strip (ascii ''    '' @ t) = t" by (rule s4)
  show "10 \<notin> set t"
    using assms by (auto simp: option_tag_def correct_tag_def lettered_tag_def ascii_def)
  show "blank_whitespace_only t = t"
    using assms
    by (auto simp: option_tag_def correct_tag_def lettered_tag_def ascii_def
        blank_whitespace_only_def is_sp_tab_def)
  show "blank_whitespace_only (ascii ''    '' @ t) = ascii ''    '' @ t"
    using assms
    by (auto simp: option_tag_def correct_tag_def lettered_tag_def ascii_def
        blank_whitespace_only_def is_sp_tab_def)
  have o: "is_lettered_tag t \<or> is_correct_tag t"
    unfolding is_lettered_tag_def is_correct_tag_def s using assms
    by (auto simp: option_tag_def correct_tag_def lettered_tag_def ascii_def startswith_def)
  show "is_option_line t" using o by (simp add: is_option_line_def)
  show "is_option_line (ascii ''    '' @ t)"
    using o unfolding is_option_line_def is_lettered_tag_def is_correct_tag_def s s4 .
qed

lemma template_lines_split:
  "template_lines ob cb =
     take 9 (template_lines [] []) @ [ascii ''    '' @ ob] @
     take 7 (drop 10 (template_lines [] [])) @ [ascii ''    '' @ cb, ascii ''    '']"
  by (simp add: template_lines_def)

lemma fixed_lines_no_newline:
  "\<forall>l\<in>set (template_lines [] []). 10 \<notin> set l"
  by (simp add: template_lines_def ascii_def)

lemma fixed_lines_no_option:
  "filter is_option_line (map blank_whitespace_only (template_lines [] [])) = []"
  by (simp add: template_lines_def ascii_def is_option_line_def is_lettered_tag_def
      is_correct_tag_def blank_whitespace_only_def is_sp_tab_def strip_def is_space_def
      startswith_def)

lemma option_tags_lines:
  "\<forall>t\<in>set ts. option_tag t \<Longrightarrow>
   map strip (filter is_option_line (map blank_whitespace_only ts)) = ts"
  by (induction ts) (auto simp: option_tag_facts)

lemma indent_first_lines:
  assumes "\<forall>t\<in>set tags. option_tag t"
  shows "map strip (filter is_option_line (map blank_whitespace_only (indent_first tags))) = tags"
proof (cases tags)
  case Nil
  then show ?thesis
    by (simp add: indent_first_def ascii_def blank_whitespace_only_def is_sp_tab_def
        is_option_line_def is_lettered_tag_def is_correct_tag_def strip_def startswith_def)
next
  case (Cons t ts)
  have t: "option_tag t" and ts: "\<forall>u\<in>set ts. option_tag u"
    using assms Cons by auto
  show ?thesis
    using Cons option_tag_facts[OF t] option_tags_lines[OF ts]
    by (simp add: indent_first_def)
qed

lemma curriculum_lines:
  "indent_first (map curriculum_line CURRICULUM) =
     [ascii ''    - Quantitative Math > Problem Solving > Numbers and Operations'',
      ascii ''- Quantitative Math > Problem Solving > Algebra'',
      ascii ''- Quantitative Math > Geometry and Measurement > Area & Volume'',
      ascii ''- Quantitative Math > Numbers and Operations > Fractions, Decimals, & Percents'',
      ascii ''- Quantitative Math > Data Analysis & Probability > Probability (Basic, Compound Events)'',
      ascii ''- Quantitative Math > Reasoning > Word Problems'']"
  by (simp add: indent_first_def CURRICULUM_def curriculum_line_def ascii_def)

lemma curriculum_lines_no_newline:
  "\<forall>t\<in>set (map curriculum_line CURRICULUM). 10 \<notin> set t"
  by (simp add: CURRICULUM_def curriculum_line_def ascii_def)

lemma curriculum_lines_no_option:
  "filter is_option_line
     (map blank_whitespace_only (indent_first (map curriculum_line CURRICULUM))) = []"
  unfolding curriculum_lines
  by (simp add: ascii_def is_option_line_def is_lettered_tag_def
      is_correct_tag_def blank_whitespace_only_def is_sp_tab_def strip_def is_space_def
      startswith_def)

lemma curriculum_lines_not_blank:
  "map blank_whitespace_only (indent_first (map curriculum_line CURRICULUM)) =
     indent_first (map curriculum_line CURRICULUM)"
  unfolding curriculum_lines
  by (simp add: ascii_def blank_whitespace_only_def is_sp_tab_def)

lemma filter_take_empty: "filter P xs = [] \<Longrightarrow> filter P (take n xs) = []"
  by (auto simp: filter_empty_conv dest: in_set_takeD)

lemma filter_drop_empty: "filter P xs = [] \<Longrightarrow> filter P (drop n xs) = []"
  by (auto simp: filter_empty_conv dest: in_set_dropD)

lemma template_split_nl:
  assumes "\<forall>t\<in>set tags. 10 \<notin> set t"
  shows "split_nl (template (join_nl tags) (join_nl (map curriculum_line CURRICULUM))) =
     take 9 (template_lines [] []) @ indent_first tags @
     take 7 (drop 10 (template_lines [] [])) @
     indent_first (map curriculum_line CURRICULUM) @ [ascii ''    '']"
proof -
  let ?F = "template_lines [] []"
  have p: "10 \<notin> set (ascii ''    '')" by (simp add: ascii_def)
  have a: "concat (map split_nl (take 9 ?F)) = take 9 ?F"
    using fixed_lines_no_newline by (intro concat_split_nl_lines) (auto dest: in_set_takeD)
  have b: "concat (map split_nl (take 7 (drop 10 ?F))) = take 7 (drop 10 ?F)"
    using fixed_lines_no_newline
    by (intro concat_split_nl_lines) (auto dest!: in_set_takeD in_set_dropD)
  have c: "split_nl (ascii ''    '' @ join_nl tags) = indent_first tags"
    unfolding split_nl_prefix_join_nl[OF p assms] by (simp add: indent_first_def)
  have d: "split_nl (ascii ''    '' @ join_nl (map curriculum_line CURRICULUM)) =
      indent_first (map curriculum_line CURRICULUM)"
    unfolding split_nl_prefix_join_nl[OF p curriculum_lines_no_newline]
    by (simp add: indent_first_def)
  have e: "split_nl (ascii ''    '') = [ascii ''    '']"
    using p by (rule split_nl_no_newline)
  have ne: "template_lines (join_nl tags) (join_nl (map curriculum_line CURRICULUM)) \<noteq> []"
    by (simp add: template_lines_def)
  show ?thesis
    unfolding template_def split_nl_join_nl[OF ne]
    by (subst template_lines_split) (simp only: map_append concat_append a b c d e
        list.map concat.simps append_Nil2 append_Cons append_Nil)
qed

lemma template_dedent_lines:
  assumes "\<forall>t\<in>set tags. 10 \<notin> set t"
  shows "split_nl (dedent (template (join_nl tags) (join_nl (map curriculum_line CURRICULUM)))) =
     map blank_whitespace_only
       (take 9 (template_lines [] []) @ indent_first tags @
        take 7 (drop 10 (template_lines [] [])) @
        indent_first (map curriculum_line CURRICULUM) @ [ascii ''    ''])"
proof -
  let ?raw = "template (join_nl tags) (join_nl (map curriculum_line CURRICULUM))"
  let ?l = "ascii ''- Quantitative Math > Problem Solving > Algebra''"
  note sp = template_split_nl[OF assms]
  have "?l \<in> set (split_nl ?raw)"
    unfolding sp curriculum_lines by simp
  moreover have "?l \<noteq> []" "\<not> is_sp_tab (hd ?l)"
    by (simp_all add: ascii_def is_sp_tab_def)
  ultimately have "split_nl (dedent ?raw) = map blank_whitespace_only (split_nl ?raw)"
    by (rule dedent_lines)
  then show ?thesis unfolding sp .
qed

lemma template_option_lines:
  assumes "\<forall>t\<in>set tags. option_tag t"
  shows "option_lines (dedent (template (join_nl tags) (join_nl (map curriculum_line CURRICULUM))))
     = tags"
proof -
  let ?raw = "template (join_nl tags) (join_nl (map curriculum_line CURRICULUM))"
  let ?l = "ascii ''- Quantitative Math > Problem Solving > Algebra''"
  have nl: "\<forall>t\<in>set tags. 10 \<notin> set t"
    using assms option_tag_facts(1) by blast
  note sp = template_split_nl[OF nl]
  have "?l \<in> set (split_nl ?raw)"
    unfolding sp curriculum_lines by simp
  moreover have "?l \<noteq> []" "\<not> is_sp_tab (hd ?l)"
    by (simp_all add: ascii_def is_sp_tab_def)
  ultimately have "split_nl (dedent ?raw) = map blank_whitespace_only (split_nl ?raw)"
    by (rule dedent_lines)
  moreover have "filter is_option_line [blank_whitespace_only (ascii ''    '')] = []"
    by (simp add: ascii_def blank_whitespace_only_def is_sp_tab_def
        is_option_line_def is_lettered_tag_def is_correct_tag_def strip_def startswith_def)
  ultimately show ?thesis
    unfolding option_lines_def sp
    by (simp add: indent_first_lines[OF assms] curriculum_lines_no_option
        filter_take_empty[OF fixed_lines_no_option]
        filter_take_empty[OF filter_drop_empty[OF fixed_lines_no_option]]
        take_map[symmetric] drop_map[symmetric])
qed

lemma build_question_format_tags:
  assumes "1 \<le> n" and "n \<le> 1114048"
  shows "build_question_format n =
     Inr (dedent (template
       (join_nl (map (\<lambda>i. lettered_tag (nat (65 + i))) [0..n - 2] @ [correct_tag]))
       (join_nl (map curriculum_line CURRICULUM))))"
  by (simp add: build_question_format_def option_tags_loop_range[OF assms])

lemma build_question_format_no_tags:
  "n \<le> 0 \<Longrightarrow> build_question_format n =
     Inr (dedent (template (join_nl []) (join_nl (map curriculum_line CURRICULUM))))"
  by (simp add: build_question_format_def)

lemma range_tags_option_tag:
  "\<forall>t\<in>set (map (\<lambda>i. lettered_tag (nat (65 + i))) [0..n - 2] @ [correct_tag]). option_tag t"
proof -
  have "\<And>i. 0 \<le> i \<Longrightarrow> option_tag (lettered_tag (nat (65 + i)))"
  proof -
    fix i :: int
    assume "0 \<le> i"
    then have "nat (65 + i) \<noteq> 10" by simp
    then show "option_tag (lettered_tag (nat (65 + i)))"
      unfolding option_tag_def by blast
  qed
  moreover have "option_tag correct_tag" by (simp add: option_tag_def)
  ultimately show ?thesis by auto
qed

lemma build_question_format_option_lines:
  assumes "1 \<le> n" and "n \<le> 1114048"
  shows "\<exists>t. build_question_format n = Inr t \<and>
     option_lines t = map (\<lambda>i. lettered_tag (nat (65 + i))) [0..n - 2] @ [correct_tag]"
  unfolding build_question_format_tags[OF assms]
  using template_option_lines[OF range_tags_option_tag] by simp

lemma build_question_format_cases:
  assumes "n \<le> 1114048"
  shows "\<exists>tags. (\<forall>t\<in>set tags. option_tag t) \<and>
     build_question_format n =
       Inr (dedent (template (join_nl tags) (join_nl (map curriculum_line CURRICULUM))))"
proof (cases "1 \<le> n")
  case True
  show ?thesis
    using build_question_format_tags[OF True assms] range_tags_option_tag[of n] by blast
next
  case False
  then have "build_question_format n =
      Inr (dedent (template (join_nl []) (join_nl (map curriculum_line CURRICULUM))))"
    by (intro build_question_format_no_tags) simp
  moreover have "\<forall>t\<in>set ([]::str list). option_tag t" by simp
  ultimately show ?thesis by blast
qed

lemma count_by_option_lines:
  "length (filter is_lettered_tag (split_nl t)) =
     length (filter (\<lambda>s. startswith s (ascii ''@option'')) (option_lines t))"
  "length (filter is_correct_tag (split_nl t)) =
     length (filter (\<lambda>s. startswith s (ascii ''@@option'')) (option_lines t))"
proof -
  have a: "filter is_lettered_tag (split_nl t) =
      filter is_lettered_tag (filter is_option_line (split_nl t))"
    unfolding filter_filter by (rule filter_cong) (auto simp: is_option_line_def)
  have b: "filter is_correct_tag (split_nl t) =
      filter is_correct_tag (filter is_option_line (split_nl t))"
    unfolding filter_filter by (rule filter_cong) (auto simp: is_option_line_def)
  show "length (filter is_lettered_tag (split_nl t)) =
     length (filter (\<lambda>s. startswith s (ascii ''@option'')) (option_lines t))"
    by (subst a) (simp add: option_lines_def filter_map o_def is_lettered_tag_def)
  show "length (filter is_correct_tag (split_nl t)) =
     length (filter (\<lambda>s. startswith s (ascii ''@@option'')) (option_lines t))"
    by (subst b) (simp add: option_lines_def filter_map o_def is_correct_tag_def)
qed

lemma startswith_tags:
  "startswith (lettered_tag c) (ascii ''@option'')"
  "\<not> startswith (lettered_tag c) (ascii ''@@option'')"
  "\<not> startswith correct_tag (ascii ''@option'')"
  "startswith correct_tag (ascii ''@@option'')"
  by (simp_all add: startswith_def lettered_tag_def correct_tag_def ascii_def)

lemma sublist_indent_first:
  "c \<in> set cs \<Longrightarrow> \<exists>l\<in>set (indent_first cs). sublist c l"
proof (cases cs)
  case Nil
  assume "c \<in> set cs"
  then show ?thesis using Nil by simp
next
  case (Cons d ds)
  assume "c \<in> set cs"
  then consider "c = d" | "c \<in> set ds" using Cons by auto
  then show ?thesis
  proof cases
    case 1
    then show ?thesis using Cons by (simp add: indent_first_def)
  next
    case 2
    then show ?thesis using Cons by (auto simp: indent_first_def)
  qed
qed

lemma template_contains_curriculum:
  assumes tags: "\<forall>t\<in>set tags. 10 \<notin> set t" and e: "e \<in> set CURRICULUM"
  shows "sublist (curriculum_line e)
     (dedent (template (join_nl tags) (join_nl (map curriculum_line CURRICULUM))))"
proof -
  let ?qf = "dedent (template (join_nl tags) (join_nl (map curriculum_line CURRICULUM)))"
  from e have "curriculum_line e \<in> set (map curriculum_line CURRICULUM)" by simp
  then obtain l where l: "l \<in> set (indent_first (map curriculum_line CURRICULUM))"
    and s: "sublist (curriculum_line e) l"
    using sublist_indent_first by blast
  have "l \<in> set (split_nl ?qf)"
    unfolding template_dedent_lines[OF tags] map_append curriculum_lines_not_blank
    using l by simp
  then have "sublist l (join_nl (split_nl ?qf))" by (rule sublist_join_nl)
  then have "sublist l ?qf" by (simp only: join_nl_split_nl)
  with s show ?thesis by (rule sublist_order.order.trans)
qed

text \<open>
  Claim C1, as the code has it: for the option count 0 the loop runs no iteration. The
  returned template is the text of the lines below, in which the option slot, the
  tenth line, is an empty line; it has no option tag line at all: no correct-option line
  \<open>@@option\<close> and no lettered line \<open>@option\<close>.
\<close>

theorem build_question_format_zero_no_option_tag:
  "\<exists>t. build_question_format 0 = Inr t \<and>
     split_nl t =
       [[],
        ascii ''    @title <Assessment title, meaningful>'',
        ascii ''    @description <Short assessment description>'',
        [],
        ascii ''    // Use this block for each question when adding Multiple Choice Questions (MCQ)'',
        ascii ''    @question <Question text here>'',
        ascii ''    @instruction <Instruction here>'',
        ascii ''    @difficulty <easy|moderate|hard>'',
        ascii ''    @Order <Question number>'',
        [],
        ascii ''    @explanation <Explanation for correct answer>'',
        ascii ''    @subject <Choose exactly from curriculum list>'',
        ascii ''    @unit <Choose exactly from curriculum list>'',
        ascii ''    @topic <Choose exactly from curriculum list>'',
        ascii ''    @plusmarks 1'',
        [],
        ascii ''    The subject, unit, and topic must come from this curriculum list:'',
        ascii ''    - Quantitative Math > Problem Solving > Numbers and Operations'',
        ascii ''- Quantitative Math > Problem Solving > Algebra'',
        ascii ''- Quantitative Math > Geometry and Measurement > Area & Volume'',
        ascii ''- Quantitative Math > Numbers and Operations > Fractions, Decimals, & Percents'',
        ascii ''- Quantitative Math > Data Analysis & Probability > Probability (Basic, Compound Events)'',
        ascii ''- Quantitative Math > Reasoning > Word Problems'',
        []] \<and>
     filter is_correct_tag (split_nl t) = [] \<and> filter is_lettered_tag (split_nl t) = []"
proof -
  let ?t = "dedent (template (join_nl []) (join_nl (map curriculum_line CURRICULUM)))"
  have "option_lines ?t = []"
    by (rule template_option_lines) simp
  then have "filter is_option_line (split_nl ?t) = []"
    by (simp add: option_lines_def)
  then have f: "filter is_correct_tag (split_nl ?t) = [] \<and> filter is_lettered_tag (split_nl ?t) = []"
    by (simp add: filter_empty_conv is_option_line_def)
  have "\<forall>t\<in>set ([]::str list). 10 \<notin> set t" by simp
  then have "split_nl ?t =
      map blank_whitespace_only
        (take 9 (template_lines [] []) @ indent_first [] @
         take 7 (drop 10 (template_lines [] [])) @
         indent_first (map curriculum_line CURRICULUM) @ [ascii ''    ''])"
    by (rule template_dedent_lines)
  then have l: "split_nl ?t =
       [[],
        ascii ''    @title <Assessment title, meaningful>'',
        ascii ''    @description <Short assessment description>'',
        [],
        ascii ''    // Use this block for each question when adding Multiple Choice Questions (MCQ)'',
        ascii ''    @question <Question text here>'',
        ascii ''    @instruction <Instruction here>'',
        ascii ''    @difficulty <easy|moderate|hard>'',
        ascii ''    @Order <Question number>'',
        [],
        ascii ''    @explanation <Explanation for correct answer>'',
        ascii ''    @subject <Choose exactly from curriculum list>'',
        ascii ''    @unit <Choose exactly from curriculum list>'',
        ascii ''    @topic <Choose exactly from curriculum list>'',
        ascii ''    @plusmarks 1'',
        [],
        ascii ''    The subject, unit, and topic must come from this curriculum list:'',
        ascii ''    - Quantitative Math > Problem Solving > Numbers and Operations'',
        ascii ''- Quantitative Math > Problem Solving > Algebra'',
        ascii ''- Quantitative Math > Geometry and Measurement > Area & Volume'',
        ascii ''- Quantitative Math > Numbers and Operations > Fractions, Decimals, & Percents'',
        ascii ''- Quantitative Math > Data Analysis & Probability > Probability (Basic, Compound Events)'',
        ascii ''- Quantitative Math > Reasoning > Word Problems'',
        []]"
    by (simp add: curriculum_lines)
      (simp add: template_lines_def indent_first_def blank_whitespace_only_def is_sp_tab_def
        ascii_def)
  have "build_question_format 0 = Inr ?t"
    by (rule build_question_format_no_tags) simp
  with f l show ?thesis by blast
qed

text \<open>
  Claim C1 as stated fails: the template for the option count 0 does not hold exactly
  one \<open>@@option\<close> line.
\<close>

theorem build_question_format_zero_counterexample:
  "\<not> (\<exists>t. build_question_format 0 = Inr t \<and> length (filter is_correct_tag (split_nl t)) = 1)"
proof -
  let ?t = "dedent (template (join_nl []) (join_nl (map curriculum_line CURRICULUM)))"
  have "option_lines ?t = []"
    by (rule template_option_lines) simp
  then have "length (filter is_correct_tag (split_nl ?t)) = 0"
    by (simp add: count_by_option_lines)
  then show ?thesis using build_question_format_no_tags[of 0] by simp
qed

text \<open>
  Claim C5: for every option count \<open>n\<close> from 1 on for which \<^verbatim>\<open>chr\<close> gives the labels
  (up to 1114048; the counts \<open>detect_options\<close> returns are at most 10) the option lines
  of the template are, in order, \<open>n - 1\<close> lettered lines \<open>@option <Option X>\<close> whose
  labels are the consecutive characters from \<open>A\<close> on (the characters \<open>65 + i\<close> for
  \<open>i = 0 .. n - 2\<close>, which up to the count 27 are all capital letters), followed by the
  one correct-option line.
\<close>

theorem build_question_format_option_tags:
  assumes "1 \<le> n" and "n \<le> 1114048"
  shows "\<exists>t. build_question_format n = Inr t \<and>
     option_lines t = map (\<lambda>i. lettered_tag (nat (65 + i))) [0..n - 2] @ [correct_tag] \<and>
     (n \<le> 27 \<longrightarrow> list_all is_upper_letter (map (\<lambda>i. nat (65 + i)) [0..n - 2])) \<and>
     length (filter is_lettered_tag (split_nl t)) = nat (n - 1) \<and>
     length (filter is_correct_tag (split_nl t)) = 1"
proof -
  obtain t where t: "build_question_format n = Inr t"
    and o: "option_lines t = map (\<lambda>i. lettered_tag (nat (65 + i))) [0..n - 2] @ [correct_tag]"
    using build_question_format_option_lines[OF assms] by blast
  have u: "n \<le> 27 \<longrightarrow> list_all is_upper_letter (map (\<lambda>i. nat (65 + i)) [0..n - 2])"
    by (auto simp: list_all_iff is_upper_letter_def)
  have l: "length (filter is_lettered_tag (split_nl t)) = nat (n - 1)"
    using assms(1) by (simp add: count_by_option_lines o startswith_tags filter_map o_def)
  have c: "length (filter is_correct_tag (split_nl t)) = 1"
    by (simp add: count_by_option_lines o startswith_tags filter_map o_def)
  show ?thesis using t o u l c by blast
qed

text \<open>
  The theorem of claim C5 at the option count 3: the lines \<open>A\<close>, \<open>B\<close> and the correct
  option.
\<close>

theorem build_question_format_option_tags_witness:
  "\<exists>t. build_question_format 3 = Inr t \<and>
     option_lines t = [ascii ''@option <Option A>'', ascii ''@option <Option B>'',
       ascii ''@@option <Correct Option>'']"
proof -
  have "[0..(1::int)] = [0, 1]" by (simp add: upto.simps)
  then show ?thesis
    using build_question_format_option_tags[of 3] by (auto simp: lettered_tag_def correct_tag_def ascii_def)
qed

section \<open>Properties of the prompt\<close>

lemma build_prompt_contains_rendered_entries:
  "\<exists>p. build_prompt q m = Inr p \<and> sublist q p \<and>
     list_all (\<lambda>e. sublist (curriculum_line e) p) CURRICULUM"
proof -
  have "detect_options q \<le> 1114048" using detect_options_range[of q] by simp
  then obtain tags where tags: "\<forall>t\<in>set tags. option_tag t"
    and b: "build_question_format (detect_options q) =
       Inr (dedent (template (join_nl tags) (join_nl (map curriculum_line CURRICULUM))))"
    using build_question_format_cases by blast
  let ?qf = "dedent (template (join_nl tags) (join_nl (map curriculum_line CURRICULUM)))"
  let ?p = "join_nl (prompt_lines q ?qf)"
  have p: "build_prompt q m = Inr ?p" by (simp add: build_prompt_def b)
  have "q \<in> set (prompt_lines q ?qf)" by (simp add: prompt_lines_def)
  then have q: "sublist q ?p" by (rule sublist_join_nl)
  have "?qf \<in> set (prompt_lines q ?qf)" by (simp add: prompt_lines_def)
  then have qf: "sublist ?qf ?p" by (rule sublist_join_nl)
  have nl: "\<forall>t\<in>set tags. 10 \<notin> set t" using tags option_tag_facts(1) by blast
  have "\<forall>e\<in>set CURRICULUM. sublist (curriculum_line e) ?p"
  proof
    fix e assume "e \<in> set CURRICULUM"
    then have "sublist (curriculum_line e) ?qf" by (rule template_contains_curriculum[OF nl])
    then show "sublist (curriculum_line e) ?p" using qf by (rule sublist_order.order.trans)
  qed
  then have "list_all (\<lambda>e. sublist (curriculum_line e) ?p) CURRICULUM"
    by (simp add: list_all_iff)
  with p q show ?thesis by blast
qed

text \<open>
  Claim C6: for every base question and order number, \<open>build_prompt\<close> returns a prompt
  (it does not raise), the base question is a contiguous part of it as it is, and so is
  the line \<open>- Subject > Unit > Topic\<close> of every one of the six entries of the curriculum.
\<close>

theorem build_prompt_contains_question_and_curriculum:
  "\<exists>p. build_prompt q m = Inr p \<and> sublist q p \<and>
     sublist (ascii ''- Quantitative Math > Problem Solving > Numbers and Operations'') p \<and>
     sublist (ascii ''- Quantitative Math > Problem Solving > Algebra'') p \<and>
     sublist (ascii ''- Quantitative Math > Geometry and Measurement > Area & Volume'') p \<and>
     sublist (ascii ''- Quantitative Math > Numbers and Operations > Fractions, Decimals, & Percents'') p \<and>
     sublist (ascii ''- Quantitative Math > Data Analysis & Probability > Probability (Basic, Compound Events)'') p \<and>
     sublist (ascii ''- Quantitative Math > Reasoning > Word Problems'') p"
proof -
  obtain p where p: "build_prompt q m = Inr p" and q: "sublist q p"
    and c: "list_all (\<lambda>e. sublist (curriculum_line e) p) CURRICULUM"
    using build_prompt_contains_rendered_entries[of q m] by blast
  from c have
    "sublist (ascii ''- Quantitative Math > Problem Solving > Numbers and Operations'') p \<and>
     sublist (ascii ''- Quantitative Math > Problem Solving > Algebra'') p \<and>
     sublist (ascii ''- Quantitative Math > Geometry and Measurement > Area & Volume'') p \<and>
     sublist (ascii ''- Quantitative Math > Numbers and Operations > Fractions, Decimals, & Percents'') p \<and>
     sublist (ascii ''- Quantitative Math > Data Analysis & Probability > Probability (Basic, Compound Events)'') p \<and>
     sublist (ascii ''- Quantitative Math > Reasoning > Word Problems'') p"
    by (simp add: CURRICULUM_def curriculum_line_def ascii_def)
  with p q show ?thesis by blast
qed

text \<open>
  The theorem of claim C6 at a question with two options, for the question and two
  entries of the curriculum.
\<close>

theorem build_prompt_contains_witness:
  "\<exists>p. build_prompt (ascii ''What is 2 + 2? (A) 3 (B) 4'') 1 = Inr p \<and>
     sublist (ascii ''What is 2 + 2? (A) 3 (B) 4'') p \<and>
     sublist (ascii ''- Quantitative Math > Problem Solving > Algebra'') p \<and>
     sublist (ascii ''- Quantitative Math > Reasoning > Word Problems'') p"
  using build_prompt_contains_question_and_curriculum[of "ascii ''What is 2 + 2? (A) 3 (B) 4''" 1] by blast

text \<open>
  Claim C9: the prompt does not depend on the order number.
\<close>

theorem build_prompt_ignores_order_num: "build_prompt q m = build_prompt q n"
  by (simp add: build_prompt_def)

section \<open>Properties of the generation gateway\<close>

lemma encode_utf8_examples:
  "encode_utf8 [8364, 65] = Inr [226, 130, 172, 65]"
  "encode_utf8 [1114111] = Inr [244, 143, 191, 191]"
  "encode_utf8 [55296] = Inl (Exn UnicodeEncodeError (ascii ''surrogates not allowed''))"
  by (simp_all add: utf8_char_def)

lemma decode_from_examples:
  "decode_from [255] = [65533]"
  "decode_from [226,130] = [65533]"
  "decode_from [226,130,65] = [65533,65]"
  "decode_from [226,65] = [65533,65]"
  "decode_from [192,128] = [65533,65533]"
  "decode_from [237,160,128] = [65533,65533,65533]"
  "decode_from [244,144,128,128] = [65533,65533,65533,65533]"
  "decode_from [240,144,128,65] = [65533,65]"
  "decode_from [240,159,152,128] = [128512]"
  "decode_from [226,130,172] = [8364]"
  "decode_from [240,128] = [65533,65533]"
  "decode_from [237,159,191] = [55295]"
  by (simp_all add: decode_step_def is_continuation_def)

lemma unat_byte: "n < 256 \<Longrightarrow> unat (of_nat n :: 8 word) = n"
  by (simp add: unat_of_nat)

lemma decode_step_two:
  assumes "2 \<le> a" and "a < 32" and "d < 64"
  shows "decode_step (192 + a) ((128 + d) # rest) = (a * 64 + d, 1)"
  using assms by (simp add: decode_step_def is_continuation_def)

lemma decode_step_three:
  assumes "a < 16" and "b < 64" and "d < 64"
    and "\<not> (a = 0 \<and> b < 32)" and "\<not> (a = 13 \<and> 32 \<le> b)"
  shows "decode_step (224 + a) ((128 + b) # (128 + d) # rest) = (a * 4096 + b * 64 + d, 2)"
  using assms by (auto simp: decode_step_def is_continuation_def)

lemma decode_step_four:
  assumes "a < 5" and "b < 64" and "d < 64" and "e < 64"
    and "\<not> (a = 0 \<and> b < 16)" and "\<not> (a = 4 \<and> 16 \<le> b)"
  shows "decode_step (240 + a) ((128 + b) # (128 + d) # (128 + e) # rest) =
     (a * 262144 + b * 4096 + d * 64 + e, 3)"
  using assms by (auto simp: decode_step_def is_continuation_def)

lemma digits_4096:
  fixes c :: nat
  shows "c div 4096 * 4096 + c div 64 mod 64 * 64 + c mod 64 = c"
proof -
  have g: "\<And>A B D::nat. (A * 64 + B) * 64 + D = A * 4096 + B * 64 + D" by simp
  have b: "c div 4096 = c div 64 div 64" by (simp add: div_mult2_eq)
  have "c div 4096 * 4096 + c div 64 mod 64 * 64 + c mod 64 =
      (c div 64 div 64 * 64 + c div 64 mod 64) * 64 + c mod 64"
    unfolding b by (simp only: g)
  also have "\<dots> = c div 64 * 64 + c mod 64" by (simp only: div_mult_mod_eq)
  also have "\<dots> = c" by (simp only: div_mult_mod_eq)
  finally show ?thesis .
qed

lemma digits_262144:
  fixes c :: nat
  shows "c div 262144 * 262144 + c div 4096 mod 64 * 4096 + c div 64 mod 64 * 64 + c mod 64 = c"
proof -
  have g: "\<And>A B D::nat. (A * 64 + B) * 4096 + D = A * 262144 + B * 4096 + D" by simp
  have b: "c div 262144 = c div 4096 div 64" by (simp add: div_mult2_eq)
  have "c div 262144 * 262144 + c div 4096 mod 64 * 4096 + (c div 64 mod 64 * 64 + c mod 64) =
      (c div 4096 div 64 * 64 + c div 4096 mod 64) * 4096 + (c div 64 mod 64 * 64 + c mod 64)"
    unfolding b by (simp only: g)
  also have "\<dots> = c div 4096 * 4096 + (c div 64 mod 64 * 64 + c mod 64)"
    by (simp only: div_mult_mod_eq)
  also have "\<dots> = c" using digits_4096[of c] by (simp only: add.assoc)
  finally show ?thesis by (simp only: add.assoc)
qed

lemma decode_utf8_char:
  assumes "utf8_char c = Some bs"
  shows "decode_from (map unat bs @ rest) = c # decode_from rest"
proof -
  consider "c < 128" | "128 \<le> c" "c < 2048"
    | "2048 \<le> c" "c < 65536" "\<not> (55296 \<le> c \<and> c < 57344)"
    | "65536 \<le> c" "c < 1114112"
    using assms by (auto simp: utf8_char_def split: if_splits)
  then show ?thesis
  proof cases
    case 1
    then have "bs = [of_nat c]" using assms by (simp add: utf8_char_def)
    then show ?thesis using 1 by (simp add: unat_byte decode_step_def)
  next
    case 2
    define a d where "a = c div 64" and "d = c mod 64"
    have c: "c = a * 64 + d" by (simp add: a_def d_def)
    have r: "2 \<le> a" "a < 32" "d < 64" using 2 by (simp_all add: a_def d_def)
    have "bs = [of_nat (192 + a), of_nat (128 + d)]"
      using assms 2 by (simp add: utf8_char_def a_def d_def)
    moreover have "unat (of_nat (192 + a) :: 8 word) = 192 + a"
      "unat (of_nat (128 + d) :: 8 word) = 128 + d"
      using r by (simp_all only: unat_byte)
    ultimately have "map unat bs @ rest = (192 + a) # (128 + d) # rest" by simp
    then show ?thesis using decode_step_two[OF r, of rest] c by simp
  next
    case 3
    define a b d where "a = c div 4096" and "b = c div 64 mod 64" and "d = c mod 64"
    have c: "c = a * 4096 + b * 64 + d" using digits_4096[of c] by (simp add: a_def b_def d_def)
    have r: "a < 16" "b < 64" "d < 64" using 3 by (simp_all add: a_def b_def d_def)
    have x: "\<not> (a = 0 \<and> b < 32)" "\<not> (a = 13 \<and> 32 \<le> b)" using 3 c r by arith+
    have "bs = [of_nat (224 + a), of_nat (128 + b), of_nat (128 + d)]"
      using assms 3 by (simp add: utf8_char_def a_def b_def d_def)
    moreover have "unat (of_nat (224 + a) :: 8 word) = 224 + a"
      "unat (of_nat (128 + b) :: 8 word) = 128 + b"
      "unat (of_nat (128 + d) :: 8 word) = 128 + d"
      using r by (simp_all only: unat_byte)
    ultimately have "map unat bs @ rest = (224 + a) # (128 + b) # (128 + d) # rest" by simp
    then show ?thesis using decode_step_three[OF r x, of rest] c by simp
  next
    case 4
    define a b d e where "a = c div 262144" and "b = c div 4096 mod 64"
      and "d = c div 64 mod 64" and "e = c mod 64"
    have c: "c = a * 262144 + b * 4096 + d * 64 + e"
      using digits_262144[of c] by (simp add: a_def b_def d_def e_def)
    have r: "a < 5" "b < 64" "d < 64" "e < 64"
      using 4 by (simp_all add: a_def b_def d_def e_def)
    have x: "\<not> (a = 0 \<and> b < 16)" "\<not> (a = 4 \<and> 16 \<le> b)" using 4 c r by arith+
    have "bs = [of_nat (240 + a), of_nat (128 + b), of_nat (128 + d), of_nat (128 + e)]"
      using assms 4 by (simp add: utf8_char_def a_def b_def d_def e_def)
    moreover have "unat (of_nat (240 + a) :: 8 word) = 240 + a"
      "unat (of_nat (128 + b) :: 8 word) = 128 + b"
      "unat (of_nat (128 + d) :: 8 word) = 128 + d"
      "unat (of_nat (128 + e) :: 8 word) = 128 + e"
      using r by (simp_all only: unat_byte)
    ultimately have "map unat bs @ rest = (240 + a) # (128 + b) # (128 + d) # (128 + e) # rest"
      by simp
    then show ?thesis using decode_step_four[OF r x, of rest] c by simp
  qed
qed

lemma decode_encode_utf8:
  "encode_utf8 s = Inr bs \<Longrightarrow> decode_utf8_replace bs = s"
proof (induction s arbitrary: bs)
  case Nil
  then show ?case by (simp add: decode_utf8_replace_def)
next
  case (Cons c s)
  then show ?case
    by (auto simp: decode_utf8_replace_def decode_utf8_char split: option.splits sum.splits)
qed

text \<open>
  Claim C3, as the code has it: with the local model on, an error of encoding the prompt
  and an error of starting the process (the program is not found) reach the caller as
  they are raised. Once the process has run, \<open>call_llm\<close> returns its output, decoded with
  every malformed sequence replaced and stripped, whatever the exit status is: output
  that is the UTF-8 of a text gives that text, stripped.
\<close>

theorem call_llm_local_outcome:
  "(encode_utf8 prompt = Inl e \<longrightarrow> call_llm subprocess_run prompt True = Inl e) \<and>
   (encode_utf8 prompt = Inr input \<longrightarrow>
      (subprocess_run [ascii ''ollama'', ascii ''run'', LOCAL_MODEL] input = Inl e \<longrightarrow>
         call_llm subprocess_run prompt True = Inl e) \<and>
      (subprocess_run [ascii ''ollama'', ascii ''run'', LOCAL_MODEL] input = Inr process \<longrightarrow>
         call_llm subprocess_run prompt True =
           Inr (strip (decode_utf8_replace (stdout process))) \<and>
         (encode_utf8 reply = Inr (stdout process) \<longrightarrow>
            call_llm subprocess_run prompt True = Inr (strip reply))))"
  using decode_encode_utf8[of reply "stdout process"] by (simp add: call_llm_def)

text \<open>
  The theorem of claim C3 where the program is not found, and the \<^verbatim>\<open>FileNotFoundError\<close>
  reaches the caller, and where the program answers, and the answer is returned stripped.
\<close>

theorem call_llm_local_outcome_witness:
  "call_llm ollama_missing (ascii ''2+2?'') True =
     Inl (Exn FileNotFoundError (ascii ''No such file or directory'')) \<and>
   call_llm ollama_answering (ascii ''2+2?'') True = Inr (ascii ''4'')"
proof -
  have e: "encode_utf8 (ascii ''2+2?'') = Inr [50, 43, 50, 63]"
    by (simp add: ascii_def utf8_char_def)
  have s: "strip [32, 52, 10] = ascii ''4''"
    by (simp add: strip_def is_space_def ascii_def)
  have "call_llm ollama_missing (ascii ''2+2?'') True =
      Inl (Exn FileNotFoundError (ascii ''No such file or directory''))"
    using e call_llm_local_outcome[where prompt = "ascii ''2+2?''" and input = "[50, 43, 50, 63]"
        and subprocess_run = ollama_missing
        and e = "Exn FileNotFoundError (ascii ''No such file or directory'')"]
    by (simp add: ollama_missing_def)
  moreover have "call_llm ollama_answering (ascii ''2+2?'') True = Inr (ascii ''4'')"
  proof -
    let ?process = "\<lparr>returncode = 0, stdout = [32, 52, 10], stderr = []\<rparr>"
    have r: "ollama_answering [ascii ''ollama'', ascii ''run'', LOCAL_MODEL] [50, 43, 50, 63] =
        Inr ?process"
      by (simp add: ollama_answering_def)
    have t: "encode_utf8 [32, 52, 10] = Inr (stdout ?process)"
      by (simp add: utf8_char_def)
    from e r t call_llm_local_outcome[where prompt = "ascii ''2+2?''"
        and input = "[50, 43, 50, 63]" and subprocess_run = ollama_answering
        and process = ?process and reply = "[32, 52, 10]"]
    have "call_llm ollama_answering (ascii ''2+2?'') True = Inr (strip [32, 52, 10])"
      by blast
    then show ?thesis by (simp add: s)
  qed
  ultimately show ?thesis by simp
qed

text \<open>
  Claim C3 as stated fails: a process that exits with status 1 and no output gives the
  empty text and no error, and output that is no UTF-8 gives replacement characters and
  no error.
\<close>

theorem call_llm_masks_failure_counterexample:
  "call_llm ollama_failing (ascii ''2+2?'') True = Inr [] \<and>
   call_llm ollama_garbled (ascii ''2+2?'') True = Inr [65533, 65533]"
  by (simp add: call_llm_def ollama_failing_def ollama_garbled_def ascii_def utf8_char_def
      strip_def is_space_def decode_utf8_replace_def decode_step_def)

section \<open>Properties of the document\<close>

lemma add_picture_appends: "\<exists>bs. snd (add_picture env src doc) = doc @ bs"
  by (simp add: add_picture_def split: option.splits)























section \<open>Properties of saving\<close>











end
